theory Spec2Isabelle
  imports Main "HOL-Library.Word"
begin

section \<open>Values exchanged with the Redis client library\<close>

text \<open>
  The package \<open>sentinel\<close> is written against the redigo client library. The source
  file holds the package twice: the text of lines 1-170 (importing
  \<open>github.com/garyburd/redigo/redis\<close>, configuration type \<open>ClusterConfig\<close>) and the
  text of lines 171-372 (importing \<open>github.com/gomodule/redigo/redis\<close>, configuration
  type \<open>Config\<close>). \<open>NewClient\<close>, \<open>doOnce\<close>, \<open>MasterAddress\<close>, \<open>Close\<close> and
  \<open>TestRole\<close> read the same in both; \<open>do\<close>, \<open>NewPool\<close> and the configuration type
  differ. Definitions carry the source's names for the text of lines 171-372. What
  differs in lines 1-170 carries the suffix \<open>_c1\<close>: \<open>do_c1\<close>, \<open>NewPool_c1\<close> and
  \<open>Dial_c1\<close>, and \<open>MasterAddress_c1\<close>, which is \<open>MasterAddress\<close> over \<open>do_c1\<close>.

  A Go \<open>error\<close> is identified with its message. A reply (\<open>interface{}\<close>) is one of
  the dynamic types redigo produces: \<open>nil\<close>, \<open>int64\<close>, \<open>string\<close> (a status line),
  \<open>[]byte\<close> (a bulk string), \<open>redis.Error\<close> and \<open>[]interface{}\<close>.
\<close>

datatype error = Err string

fun msg :: "error \<Rightarrow> string" where
  "msg (Err s) = s"

datatype reply =
    RNil
  | RInt int
  | RStatus string
  | RBulk string
  | RError string
  | RArray "reply list"

text \<open>A Go call that may panic at run time (index out of range) instead of returning.\<close>

datatype 'a go = Panic | Return 'a

text \<open>\<open>time.Duration\<close> is an \<open>int64\<close> count of nanoseconds.\<close>

type_synonym duration = "64 word"

definition Second :: duration where
  "Second = 1000000000"

datatype DialOption =
    DialConnectTimeout duration
  | DialReadTimeout duration
  | DialWriteTimeout duration

subsection \<open>The reply helpers of redigo\<close>

text \<open>
  The helpers \<open>redis.Strings\<close>, \<open>redis.Values\<close> and \<open>redis.String\<close> belong to the
  library, not to this package; they are written out here after \<open>reply.go\<close> of
  \<open>github.com/gomodule/redigo\<close>, the library lines 171-372 import. Each takes the pair
  \<open>(reply, err)\<close> that a command returned, here a value of \<open>error + reply\<close>, and passes
  a non-nil \<open>err\<close> through.
\<close>

definition ErrNil :: error where
  "ErrNil = Err ''redigo: nil returned''"

fun go_type :: "reply \<Rightarrow> string" where
  "go_type RNil = ''<nil>''"
| "go_type (RInt _) = ''int64''"
| "go_type (RStatus _) = ''string''"
| "go_type (RBulk _) = ''[]uint8''"
| "go_type (RError _) = ''redis.Error''"
| "go_type (RArray _) = ''[]interface {}''"

fun redis_String :: "error + reply \<Rightarrow> error + string" where
  "redis_String (Inl e) = Inl e"
| "redis_String (Inr (RBulk s)) = Inr s"
| "redis_String (Inr (RStatus s)) = Inr s"
| "redis_String (Inr RNil) = Inl ErrNil"
| "redis_String (Inr (RError m)) = Inl (Err m)"
| "redis_String (Inr r) =
     Inl (Err (''redigo: unexpected type for String, got type '' @ go_type r))"

fun redis_Values :: "error + reply \<Rightarrow> error + reply list" where
  "redis_Values (Inl e) = Inl e"
| "redis_Values (Inr (RArray xs)) = Inr xs"
| "redis_Values (Inr RNil) = Inl ErrNil"
| "redis_Values (Inr (RError m)) = Inl (Err m)"
| "redis_Values (Inr r) =
     Inl (Err (''redigo: unexpected type for Values, got type '' @ go_type r))"

text \<open>
  The element loop of \<open>redis.Strings\<close>, over a result slice made with one empty
  string per element: a nil element is skipped, a bulk string and a simple string are
  stored, and any other element ends the loop with an error, the elements from there
  on left empty.
\<close>

fun Strings_elems :: "reply list \<Rightarrow> string list \<times> error option" where
  "Strings_elems [] = ([], None)"
| "Strings_elems (RNil # xs) = (case Strings_elems xs of (ss, err) \<Rightarrow> ([] # ss, err))"
| "Strings_elems (RBulk s # xs) = (case Strings_elems xs of (ss, err) \<Rightarrow> (s # ss, err))"
| "Strings_elems (RStatus s # xs) = (case Strings_elems xs of (ss, err) \<Rightarrow> (s # ss, err))"
| "Strings_elems (x # xs) =
     (replicate (Suc (length xs)) [],
      Some (Err (''redigo: unexpected element type for Strings, got type '' @ go_type x)))"

text \<open>
  \<open>redis.Strings\<close> returns \<open>([]string, error)\<close>: for an array the slice the element
  loop filled, also when the loop ended with an error; for every other reply a nil
  slice and an error.
\<close>

fun redis_Strings :: "error + reply \<Rightarrow> string list \<times> error option" where
  "redis_Strings (Inl e) = ([], Some e)"
| "redis_Strings (Inr (RArray xs)) = Strings_elems xs"
| "redis_Strings (Inr RNil) = ([], Some ErrNil)"
| "redis_Strings (Inr (RError m)) = ([], Some (Err m))"
| "redis_Strings (Inr r) =
     ([], Some (Err (''redigo: unexpected type for Strings, got type '' @ go_type r)))"

text \<open>\<open>strings.Join\<close>.\<close>

fun Join :: "string list \<Rightarrow> string \<Rightarrow> string" where
  "Join [] sep = []"
| "Join [s] sep = s"
| "Join (s # t # ss) sep = s @ sep @ Join (t # ss) sep"

section \<open>The network\<close>

text \<open>
  A connection is known by the instant it was dialed at and by the address it was
  dialed to. The network is a parameter: \<open>dial_answer net t a\<close> says whether a dial of
  address \<open>a\<close> at instant \<open>t\<close> fails, \<open>do_answer net t a c\<close> is the pair
  \<open>(reply, err)\<close> that the command \<open>c\<close> sent at instant \<open>t\<close> over a connection to \<open>a\<close>
  returns. The world counts the network calls made so far (\<open>clock\<close>), records them
  (\<open>trace\<close>) and holds the connections that were dialed and on which \<open>Close\<close> has
  not been called yet (\<open>live\<close>). On an I/O error redigo shuts the socket down inside
  \<open>Do\<close>; the connection value stays with its holder until \<open>Close\<close> is called on it,
  and it stays in \<open>live\<close> until then.
\<close>

datatype conn = Conn (conn_id: nat) (peer: string)

datatype event =
    EvDial string "error + conn"
  | EvDo conn "string list" "error + reply"
  | EvClose conn

record net =
  dial_answer :: "nat \<Rightarrow> string \<Rightarrow> error option"
  do_answer :: "nat \<Rightarrow> string \<Rightarrow> string list \<Rightarrow> error + reply"

record world =
  clock :: nat
  trace :: "event list"
  live :: "conn list"

definition redis_Dial ::
  "net \<Rightarrow> string \<Rightarrow> DialOption list \<Rightarrow> world \<Rightarrow> (error + conn) \<times> world" where
  "redis_Dial nt address opts w =
     (case dial_answer nt (clock w) address of
        Some e \<Rightarrow>
          (Inl e, w\<lparr>clock := Suc (clock w), trace := trace w @ [EvDial address (Inl e)]\<rparr>)
      | None \<Rightarrow>
          (let c = Conn (clock w) address
           in (Inr c, w\<lparr>clock := Suc (clock w),
                          trace := trace w @ [EvDial address (Inr c)],
                          live := c # live w\<rparr>)))"

definition conn_Do ::
  "net \<Rightarrow> conn \<Rightarrow> string \<Rightarrow> string list \<Rightarrow> world \<Rightarrow> (error + reply) \<times> world" where
  "conn_Do nt c cmd args w =
     (let r = do_answer nt (clock w) (peer c) (cmd # args)
      in (r, w\<lparr>clock := Suc (clock w), trace := trace w @ [EvDo c (cmd # args) r]\<rparr>))"

definition conn_Close :: "conn \<Rightarrow> world \<Rightarrow> world" where
  "conn_Close c w = w\<lparr>trace := trace w @ [EvClose c], live := remove1 c (live w)\<rparr>"

section \<open>The sentinel client\<close>

text \<open>
  \<open>activeAddr\<close> is a Go \<open>int\<close>; it starts at 0 and is only ever assigned a remainder
  modulo \<open>len(addrs)\<close>, so it is a natural number. The mutex serialises callers and
  has no part in the sequential behaviour.
\<close>

record Client =
  conn :: "conn option"
  options :: "DialOption list"
  addrs :: "string list"
  activeAddr :: nat

definition NewClient :: "string list \<Rightarrow> DialOption list \<Rightarrow> Client" where
  "NewClient as opts = \<lparr>conn = None, options = opts, addrs = as, activeAddr = 0\<rparr>"

text \<open>
  \<open>doOnce\<close>: dial if there is no connection (\<open>sc.addrs[sc.activeAddr]\<close> panics when the
  index is out of range), then send the command; an error of the command closes and
  clears the connection. The result \<open>(reply, err)\<close> is a value of \<open>error + reply\<close>:
  every caller drops the reply when \<open>err\<close> is not nil.
\<close>

definition doOnce ::
  "net \<Rightarrow> string \<Rightarrow> string list \<Rightarrow> Client \<Rightarrow> world
     \<Rightarrow> ((error + reply) \<times> Client \<times> world) go" where
  "doOnce nt cmd args sc w =
     (case conn sc of
        None \<Rightarrow>
          if activeAddr sc < length (addrs sc) then
            (case redis_Dial nt (addrs sc ! activeAddr sc) (options sc) w of
               (Inl e, w1) \<Rightarrow> Return (Inl e, sc\<lparr>conn := None\<rparr>, w1)
             | (Inr c, w1) \<Rightarrow>
                 (case conn_Do nt c cmd args w1 of
                    (Inl e, w2) \<Rightarrow> Return (Inl e, sc\<lparr>conn := None\<rparr>, conn_Close c w2)
                  | (Inr r, w2) \<Rightarrow> Return (Inr r, sc\<lparr>conn := Some c\<rparr>, w2)))
          else Panic
      | Some c \<Rightarrow>
          (case conn_Do nt c cmd args w of
             (Inl e, w2) \<Rightarrow> Return (Inl e, sc\<lparr>conn := None\<rparr>, conn_Close c w2)
           | (Inr r, w2) \<Rightarrow> Return (Inr r, sc, w2)))"

text \<open>
  \<open>do\<close> (lines 276-291): the loop \<open>for i := 0; i < len(sc.addrs); i++\<close>, with the
  variables \<open>reply, err\<close> (both nil before the first iteration) as the argument \<open>r\<close>.
\<close>

function do_loop ::
  "net \<Rightarrow> string \<Rightarrow> string list \<Rightarrow> nat \<Rightarrow> error + reply \<Rightarrow> Client \<Rightarrow> world
     \<Rightarrow> ((error + reply) \<times> Client \<times> world) go" where
  "do_loop nt cmd args i r sc w =
     (if i < length (addrs sc) then
        (case doOnce nt cmd args sc w of
           Panic \<Rightarrow> Panic
         | Return (Inl e, sc1, w1) \<Rightarrow>
             do_loop nt cmd args (i + 1) (Inl e)
               (sc1\<lparr>activeAddr := (activeAddr sc1 + 1) mod length (addrs sc1)\<rparr>) w1
         | Return (Inr rep, sc1, w1) \<Rightarrow> Return (Inr rep, sc1, w1))
      else Return (r, sc, w))"
  by pat_completeness auto
termination
  by (relation "measure (\<lambda>(nt, cmd, args, i, r, sc, w). length (addrs sc) - i)")
     (auto simp: doOnce_def split: option.splits if_splits prod.splits sum.splits)

definition do ::
  "net \<Rightarrow> string \<Rightarrow> string list \<Rightarrow> Client \<Rightarrow> world
     \<Rightarrow> ((error + reply) \<times> Client \<times> world) go" where
  "do nt cmd args sc w = do_loop nt cmd args 0 (Inr RNil) sc w"

text \<open>
  \<open>do\<close> as lines 94-108 have it: the same loop without the \<open>break\<close>, so a successful
  attempt is followed by the next iteration.
\<close>

function do_loop_c1 ::
  "net \<Rightarrow> string \<Rightarrow> string list \<Rightarrow> nat \<Rightarrow> error + reply \<Rightarrow> Client \<Rightarrow> world
     \<Rightarrow> ((error + reply) \<times> Client \<times> world) go" where
  "do_loop_c1 nt cmd args i r sc w =
     (if i < length (addrs sc) then
        (case doOnce nt cmd args sc w of
           Panic \<Rightarrow> Panic
         | Return (Inl e, sc1, w1) \<Rightarrow>
             do_loop_c1 nt cmd args (i + 1) (Inl e)
               (sc1\<lparr>activeAddr := (activeAddr sc1 + 1) mod length (addrs sc1)\<rparr>) w1
         | Return (Inr rep, sc1, w1) \<Rightarrow> do_loop_c1 nt cmd args (i + 1) (Inr rep) sc1 w1)
      else Return (r, sc, w))"
  by pat_completeness auto
termination
  by (relation "measure (\<lambda>(nt, cmd, args, i, r, sc, w). length (addrs sc) - i)")
     (auto simp: doOnce_def split: option.splits if_splits prod.splits sum.splits)

definition do_c1 ::
  "net \<Rightarrow> string \<Rightarrow> string list \<Rightarrow> Client \<Rightarrow> world
     \<Rightarrow> ((error + reply) \<times> Client \<times> world) go" where
  "do_c1 nt cmd args sc w = do_loop_c1 nt cmd args 0 (Inr RNil) sc w"

text \<open>
  \<open>MasterAddress\<close> returns \<open>(string, error)\<close>: the joined reply together with the error
  of the query or of the decoding.
\<close>

definition MasterAddress ::
  "net \<Rightarrow> string \<Rightarrow> Client \<Rightarrow> world \<Rightarrow> ((string \<times> error option) \<times> Client \<times> world) go" where
  "MasterAddress nt name sc w =
     (case do nt ''SENTINEL'' [''get-master-addr-by-name'', name] sc w of
        Panic \<Rightarrow> Panic
      | Return (r, sc1, w1) \<Rightarrow>
          (case redis_Strings r of
             (res, err) \<Rightarrow> Return ((Join res '':'', err), sc1, w1)))"

definition MasterAddress_c1 ::
  "net \<Rightarrow> string \<Rightarrow> Client \<Rightarrow> world \<Rightarrow> ((string \<times> error option) \<times> Client \<times> world) go" where
  "MasterAddress_c1 nt name sc w =
     (case do_c1 nt ''SENTINEL'' [''get-master-addr-by-name'', name] sc w of
        Panic \<Rightarrow> Panic
      | Return (r, sc1, w1) \<Rightarrow>
          (case redis_Strings r of
             (res, err) \<Rightarrow> Return ((Join res '':'', err), sc1, w1)))"


section \<open>The role check\<close>

text \<open>
  \<open>TestRole\<close> returns an \<open>error\<close> (\<open>None\<close> is nil). \<open>res[0]\<close> is read without a look at
  \<open>len(res)\<close>: on an empty slice the Go run time panics.
\<close>

definition TestRole :: "net \<Rightarrow> conn \<Rightarrow> string \<Rightarrow> world \<Rightarrow> (error option \<times> world) go" where
  "TestRole nt c expectedRole w =
     (case conn_Do nt c ''ROLE'' [] w of
        (r, w1) \<Rightarrow>
          (case redis_Values r of
             Inl e \<Rightarrow> Return (Some e, w1)
           | Inr res \<Rightarrow>
               (case res of
                  [] \<Rightarrow> Panic
                | x # _ \<Rightarrow>
                    (case redis_String (Inr x) of
                       Inl e \<Rightarrow> Return (Some e, w1)
                     | Inr role \<Rightarrow>
                         if role \<noteq> expectedRole
                         then Return (Some (Err ''role check failed''), w1)
                         else Return (None, w1)))))"

section \<open>The pool\<close>

record Timeouts =
  Connect :: duration
  Read :: duration
  Write :: duration

record Config =
  Master :: string
  Sentinels :: "string list"
  SentinelTimeouts :: Timeouts
  RedisTimeouts :: Timeouts

definition validateConfig :: "Config \<Rightarrow> error option" where
  "validateConfig conf =
     (if Master conf = [] then Some (Err ''master is not set'')
      else if length (Sentinels conf) = 0 then Some (Err ''sentinel array is not set'')
      else if Connect (SentinelTimeouts conf) = 0 \<or>
              Read (SentinelTimeouts conf) = 0 \<or>
              Write (SentinelTimeouts conf) = 0
           then Some (Err ''sentinel timeouts are not set'')
      else if Connect (RedisTimeouts conf) = 0 then Some (Err ''redis timeouts are not set'')
      else None)"

text \<open>
  A \<open>redis.Pool\<close> as \<open>NewPool\<close> fills it in. The two callbacks are closures over the
  configuration and over the client \<open>sentConn\<close>; the record holds what they capture,
  and \<open>Dial\<close> and \<open>TestOnBorrow\<close> below are their bodies.
\<close>

record Pool =
  MaxIdle :: int
  IdleTimeout :: duration
  sentConn :: Client
  conf_of :: Config

definition NewPool :: "Config \<Rightarrow> error + Pool" where
  "NewPool conf =
     (case validateConfig conf of
        Some e \<Rightarrow> Inl e
      | None \<Rightarrow>
          Inr \<lparr>MaxIdle = 10,
               IdleTimeout = 240 * Second,
               sentConn = NewClient (Sentinels conf)
                 [DialConnectTimeout (Connect (SentinelTimeouts conf)),
                  DialReadTimeout (Read (SentinelTimeouts conf)),
                  DialWriteTimeout (Write (SentinelTimeouts conf))],
               conf_of = conf\<rparr>)"

definition Dial ::
  "net \<Rightarrow> Config \<Rightarrow> Client \<Rightarrow> world
     \<Rightarrow> ((conn option \<times> error option) \<times> Client \<times> world) go" where
  "Dial nt conf sc w =
     (case MasterAddress nt (Master conf) sc w of
        Panic \<Rightarrow> Panic
      | Return ((masterAddr, Some e), sc1, w1) \<Rightarrow>
          Return ((None, Some (Err (''sentinel: get master address: '' @ msg e))), sc1, w1)
      | Return ((masterAddr, None), sc1, w1) \<Rightarrow>
          (case redis_Dial nt masterAddr
                  [DialConnectTimeout (Connect (RedisTimeouts conf)),
                   DialReadTimeout (Read (RedisTimeouts conf)),
                   DialWriteTimeout (Write (RedisTimeouts conf))] w1 of
             (Inl e, w2) \<Rightarrow> Return ((None, Some (Err (''dial error: '' @ msg e))), sc1, w2)
           | (Inr c, w2) \<Rightarrow>
               (case TestRole nt c ''master'' w2 of
                  Panic \<Rightarrow> Panic
                | Return (Some e, w3) \<Rightarrow>
                    Return ((None, Some (Err (''dial: failed role check: '' @ msg e))), sc1, w3)
                | Return (None, w3) \<Rightarrow> Return ((Some c, None), sc1, w3))))"

definition TestOnBorrow :: "net \<Rightarrow> conn \<Rightarrow> world \<Rightarrow> (error option \<times> world) go" where
  "TestOnBorrow nt c w =
     (case TestRole nt c ''master'' w of
        Panic \<Rightarrow> Panic
      | Return (Some e, w1) \<Rightarrow> Return (Some (Err (''failed role check: '' @ msg e)), w1)
      | Return (None, w1) \<Rightarrow> Return (None, w1))"

subsection \<open>The pool of lines 1-170\<close>

text \<open>
  There the configuration is a \<open>ClusterConfig\<close> whose timeouts are slices, \<open>NewPool\<close>
  returns a \<open>*redis.Pool\<close> and nothing else, and no configuration is checked: the
  slices are indexed at 0, 1 and 2, which panics when one is shorter than three.
\<close>

record ClusterConfig =
  Name :: string
  Sentinels_c1 :: "string list"
  SentinelTimeouts_c1 :: "duration list"
  RedisTimeouts_c1 :: "duration list"

record Pool_c1 =
  MaxIdle_c1 :: int
  IdleTimeout_c1 :: duration
  sentConn_c1 :: Client
  conf_of_c1 :: ClusterConfig

definition NewPool_c1 :: "ClusterConfig \<Rightarrow> Pool_c1 go" where
  "NewPool_c1 conf =
     (if length (SentinelTimeouts_c1 conf) < 3 then Panic
      else Return
        \<lparr>MaxIdle_c1 = 10,
         IdleTimeout_c1 = 240 * Second,
         sentConn_c1 = NewClient (Sentinels_c1 conf)
           [DialConnectTimeout (SentinelTimeouts_c1 conf ! 0),
            DialReadTimeout (SentinelTimeouts_c1 conf ! 1),
            DialWriteTimeout (SentinelTimeouts_c1 conf ! 2)],
         conf_of_c1 = conf\<rparr>)"

definition Dial_c1 ::
  "net \<Rightarrow> ClusterConfig \<Rightarrow> Client \<Rightarrow> world
     \<Rightarrow> ((conn option \<times> error option) \<times> Client \<times> world) go" where
  "Dial_c1 nt conf sc w =
     (case MasterAddress_c1 nt (Name conf) sc w of
        Panic \<Rightarrow> Panic
      | Return ((masterAddr, Some e), sc1, w1) \<Rightarrow>
          Return ((None, Some (Err (''sentinel: get master address: '' @ msg e))), sc1, w1)
      | Return ((masterAddr, None), sc1, w1) \<Rightarrow>
          if length (RedisTimeouts_c1 conf) < 3 then Panic
          else
            (case redis_Dial nt masterAddr
                    [DialConnectTimeout (RedisTimeouts_c1 conf ! 0),
                     DialReadTimeout (RedisTimeouts_c1 conf ! 1),
                     DialWriteTimeout (RedisTimeouts_c1 conf ! 2)] w1 of
               (Inl e, w2) \<Rightarrow> Return ((None, Some (Err (''dial error: '' @ msg e))), sc1, w2)
             | (Inr c, w2) \<Rightarrow>
                 (case TestRole nt c ''master'' w2 of
                    Panic \<Rightarrow> Panic
                  | Return (Some e, w3) \<Rightarrow>
                      Return ((None, Some (Err (''dial: failed role check: '' @ msg e))), sc1, w3)
                  | Return (None, w3) \<Rightarrow> Return ((Some c, None), sc1, w3))))"

section \<open>Notions the properties are stated with\<close>

text \<open>
  An attempt is one call of \<open>doOnce\<close>. Each call leaves exactly one of two marks in the
  trace: a dial that failed, or a command that was sent (lemma \<open>doOnce_one_attempt\<close>
  below). A query is a command that was sent.
\<close>

fun is_attempt :: "event \<Rightarrow> bool" where
  "is_attempt (EvDial a (Inl e)) = True"
| "is_attempt (EvDial a (Inr c)) = False"
| "is_attempt (EvDo c a r) = True"
| "is_attempt (EvClose c) = False"

fun is_query :: "event \<Rightarrow> bool" where
  "is_query (EvDo c a r) = True"
| "is_query _ = False"

fun event_error :: "event \<Rightarrow> error option" where
  "event_error (EvDial a (Inl e)) = Some e"
| "event_error (EvDo c a (Inl e)) = Some e"
| "event_error _ = None"

definition attempts :: "event list \<Rightarrow> nat" where
  "attempts tr = length (filter is_attempt tr)"

definition queries :: "event list \<Rightarrow> nat" where
  "queries tr = length (filter is_query tr)"

definition last_attempt_error :: "event list \<Rightarrow> error option" where
  "last_attempt_error tr =
     (case rev (filter is_attempt tr) of [] \<Rightarrow> None | ev # _ \<Rightarrow> event_error ev)"


text \<open>
  The client as the loop leaves it after a failed attempt: no connection, and
  \<open>activeAddr\<close> moved on by one, modulo \<open>len(addrs)\<close>.
\<close>

definition rotated :: "Client \<Rightarrow> Client" where
  "rotated sc = sc\<lparr>conn := None, activeAddr := (activeAddr sc + 1) mod length (addrs sc)\<rparr>"

text \<open>The dial options the \<open>Dial\<close> callbacks pass for the data node.\<close>

definition data_options :: "Config \<Rightarrow> DialOption list" where
  "data_options conf =
     [DialConnectTimeout (Connect (RedisTimeouts conf)),
      DialReadTimeout (Read (RedisTimeouts conf)),
      DialWriteTimeout (Write (RedisTimeouts conf))]"

definition data_options_c1 :: "ClusterConfig \<Rightarrow> DialOption list" where
  "data_options_c1 conf =
     [DialConnectTimeout (RedisTimeouts_c1 conf ! 0),
      DialReadTimeout (RedisTimeouts_c1 conf ! 1),
      DialWriteTimeout (RedisTimeouts_c1 conf ! 2)]"

section \<open>Example networks, clients and configurations\<close>

text \<open>Every dial succeeds and every command is answered with the master's address.\<close>

definition net_up :: net where
  "net_up =
     \<lparr>dial_answer = (\<lambda>t a. None),
      do_answer = (\<lambda>t a c. Inr (RArray [RBulk ''10.0.0.9'', RBulk ''6379'']))\<rparr>"

text \<open>The first monitor cannot be dialed, and no command is ever answered.\<close>

definition net_down :: net where
  "net_down =
     \<lparr>dial_answer =
        (\<lambda>t a. if a = ''10.0.0.1:26379'' then Some (Err ''dial tcp: i/o timeout'') else None),
      do_answer = (\<lambda>t a c. Inl (Err ''read: connection reset by peer''))\<rparr>"


text \<open>The command sent at instant 1 is answered, every other command fails.\<close>

definition net_once :: net where
  "net_once =
     \<lparr>dial_answer = (\<lambda>t a. None),
      do_answer =
        (\<lambda>t a c. if t = 1 then Inr (RArray [RBulk ''10.0.0.9'', RBulk ''6379''])
                  else Inl (Err ''read: connection reset by peer''))\<rparr>"

text \<open>
  Every command is answered with a nil reply, as a sentinel answers for a master name
  it does not know.
\<close>

definition net_unknown :: net where
  "net_unknown = \<lparr>dial_answer = (\<lambda>t a. None), do_answer = (\<lambda>t a c. Inr RNil)\<rparr>"

text \<open>Every command is answered with the status line \<open>OK\<close>.\<close>

definition net_status :: net where
  "net_status =
     \<lparr>dial_answer = (\<lambda>t a. None), do_answer = (\<lambda>t a c. Inr (RStatus ''OK''))\<rparr>"

text \<open>The first monitor accepts the dial and fails every command, the others answer.\<close>

definition net_second :: net where
  "net_second =
     \<lparr>dial_answer = (\<lambda>t a. None),
      do_answer =
        (\<lambda>t a c. if a = ''10.0.0.1:26379'' then Inl (Err ''read: connection reset by peer'')
                  else Inr (RArray [RBulk ''10.0.0.9'', RBulk ''6379'']))\<rparr>"

text \<open>The monitors answer; a data node answers \<open>ROLE\<close> with the given role.\<close>

definition net_role :: "string \<Rightarrow> net" where
  "net_role role =
     \<lparr>dial_answer = (\<lambda>t a. None),
      do_answer =
        (\<lambda>t a c. if c = [''ROLE''] then Inr (RArray [RBulk role, RInt 0, RArray []])
                  else Inr (RArray [RBulk ''10.0.0.9'', RBulk ''6379'']))\<rparr>"

text \<open>A data node that answers \<open>ROLE\<close> with an empty array.\<close>

definition net_empty_role :: net where
  "net_empty_role =
     \<lparr>dial_answer = (\<lambda>t a. None),
      do_answer =
        (\<lambda>t a c. if c = [''ROLE''] then Inr (RArray [])
                  else Inr (RArray [RBulk ''10.0.0.9'', RBulk ''6379'']))\<rparr>"

definition two_monitors :: Client where
  "two_monitors = NewClient [''10.0.0.1:26379'', ''10.0.0.2:26379''] []"

definition world0 :: world where
  "world0 = \<lparr>clock = 0, trace = [], live = []\<rparr>"

text \<open>The client and the world after one successful \<open>MasterAddress\<close> on \<open>net_up\<close>.\<close>

definition connected_client :: Client where
  "connected_client = two_monitors\<lparr>conn := Some (Conn 0 ''10.0.0.1:26379'')\<rparr>"

definition connected_world :: world where
  "connected_world =
     \<lparr>clock = 2,
      trace =
        [EvDial ''10.0.0.1:26379'' (Inr (Conn 0 ''10.0.0.1:26379'')),
         EvDo (Conn 0 ''10.0.0.1:26379'') [''SENTINEL'', ''get-master-addr-by-name'', ''mycluster'']
           (Inr (RArray [RBulk ''10.0.0.9'', RBulk ''6379'']))],
      live = [Conn 0 ''10.0.0.1:26379'']\<rparr>"

text \<open>
  \<open>connected_world\<close> after a query over its connection failed and the connection was
  closed, and after the second monitor was then dialed and answered.
\<close>

definition reset_world :: world where
  "reset_world =
     connected_world\<lparr>clock := 3,
       trace := trace connected_world @
         [EvDo (Conn 0 ''10.0.0.1:26379'') [''SENTINEL'', ''get-master-addr-by-name'', ''mycluster'']
            (Inl (Err ''read: connection reset by peer'')),
          EvClose (Conn 0 ''10.0.0.1:26379'')],
       live := []\<rparr>"

definition second_world :: world where
  "second_world =
     reset_world\<lparr>clock := 5,
       trace := trace reset_world @
         [EvDial ''10.0.0.2:26379'' (Inr (Conn 3 ''10.0.0.2:26379'')),
          EvDo (Conn 3 ''10.0.0.2:26379'') [''SENTINEL'', ''get-master-addr-by-name'', ''mycluster'']
            (Inr (RArray [RBulk ''10.0.0.9'', RBulk ''6379'']))],
       live := [Conn 3 ''10.0.0.2:26379'']\<rparr>"

text \<open>The world after the first monitor was dialed and answered the query with nil.\<close>

definition unknown_world :: world where
  "unknown_world =
     \<lparr>clock = 2,
      trace =
        [EvDial ''10.0.0.1:26379'' (Inr (Conn 0 ''10.0.0.1:26379'')),
         EvDo (Conn 0 ''10.0.0.1:26379'') [''SENTINEL'', ''get-master-addr-by-name'', ''mycluster'']
           (Inr RNil)],
      live = [Conn 0 ''10.0.0.1:26379'']\<rparr>"

text \<open>A connection to a data node, and the world in which it is the one open connection.\<close>

definition data_conn :: conn where
  "data_conn = Conn 0 ''10.0.0.9:6379''"

definition data_world :: world where
  "data_world =
     \<lparr>clock = 1, trace = [EvDial ''10.0.0.9:6379'' (Inr data_conn)], live = [data_conn]\<rparr>"

definition config0 :: Config where
  "config0 =
     \<lparr>Master = ''mycluster'',
      Sentinels = [''10.0.0.1:26379'', ''10.0.0.2:26379''],
      SentinelTimeouts = \<lparr>Connect = Second, Read = Second, Write = Second\<rparr>,
      RedisTimeouts = \<lparr>Connect = Second, Read = 0, Write = 0\<rparr>\<rparr>"

definition cluster_config0 :: ClusterConfig where
  "cluster_config0 =
     \<lparr>Name = [],
      Sentinels_c1 = [],
      SentinelTimeouts_c1 = [0, 0, 0],
      RedisTimeouts_c1 = []\<rparr>"

section \<open>One attempt\<close>

declare do_loop.simps [simp del] do_loop_c1.simps [simp del]

lemma doOnce_frame:
  "doOnce nt cmd args sc w = Return (r, sc1, w1) \<Longrightarrow>
     addrs sc1 = addrs sc \<and> options sc1 = options sc \<and> activeAddr sc1 = activeAddr sc"
  by (auto simp: doOnce_def redis_Dial_def conn_Do_def Let_def
      split: option.splits if_splits prod.splits sum.splits)

lemma doOnce_error:
  "doOnce nt cmd args sc w = Return (Inl e, sc1, w1) \<Longrightarrow> sc1 = sc\<lparr>conn := None\<rparr>"
  by (auto simp: doOnce_def redis_Dial_def conn_Do_def Let_def
      split: option.splits if_splits prod.splits sum.splits)

lemma doOnce_error_live:
  "doOnce nt cmd args sc w = Return (Inl e, sc1, w1) \<Longrightarrow>
     live w1 = (case conn sc of None \<Rightarrow> live w | Some c \<Rightarrow> remove1 c (live w))"
  by (auto simp: doOnce_def redis_Dial_def conn_Do_def conn_Close_def Let_def
      split: option.splits if_splits prod.splits sum.splits)

lemma doOnce_one_attempt:
  "doOnce nt cmd args sc w = Return (r, sc1, w1) \<Longrightarrow>
     attempts (trace w1) = Suc (attempts (trace w))"
  by (auto simp: doOnce_def redis_Dial_def conn_Do_def conn_Close_def Let_def attempts_def
      split: option.splits if_splits prod.splits sum.splits)

lemma doOnce_last_error:
  "doOnce nt cmd args sc w = Return (Inl e, sc1, w1) \<Longrightarrow>
     last_attempt_error (trace w1) = Some e"
  by (auto simp: doOnce_def redis_Dial_def conn_Do_def conn_Close_def Let_def
        last_attempt_error_def
      split: option.splits if_splits prod.splits sum.splits)

lemma doOnce_total:
  "activeAddr sc < length (addrs sc) \<Longrightarrow>
     \<exists>r sc1 w1. doOnce nt cmd args sc w = Return (r, sc1, w1)"
  by (auto simp: doOnce_def redis_Dial_def conn_Do_def conn_Close_def Let_def
      split: option.splits if_splits prod.splits sum.splits)

lemma doOnce_queries:
  "doOnce nt cmd args sc w = Return (Inr rep, sc1, w1) \<Longrightarrow>
     queries (trace w1) = Suc (queries (trace w))"
  by (auto simp: doOnce_def redis_Dial_def conn_Do_def conn_Close_def Let_def queries_def
      split: option.splits if_splits prod.splits sum.splits)

lemma doOnce_success_conn:
  "doOnce nt cmd args sc w = Return (Inr rep, sc1, w1) \<Longrightarrow>
     \<exists>c. conn sc1 = Some c \<and> (conn sc = None \<or> conn sc = Some c) \<and>
       (conn sc = Some c \<longrightarrow> sc1 = sc)"
  by (auto simp: doOnce_def redis_Dial_def conn_Do_def conn_Close_def Let_def
      split: option.splits if_splits prod.splits sum.splits)

lemma doOnce_success_state:
  "doOnce nt cmd args sc w = Return (Inr rep, sc1, w1) \<Longrightarrow>
     sc1 = sc\<lparr>conn := Some (case conn sc of
                               None \<Rightarrow> Conn (clock w) (addrs sc ! activeAddr sc)
                             | Some c \<Rightarrow> c)\<rparr> \<and>
     live w1 = (case conn sc of
                  None \<Rightarrow> Conn (clock w) (addrs sc ! activeAddr sc) # live w
                | Some c \<Rightarrow> live w)"
  by (auto simp: doOnce_def redis_Dial_def conn_Do_def conn_Close_def Let_def
      split: option.splits if_splits prod.splits sum.splits)

text \<open>With a connection at hand \<open>doOnce\<close> does not dial: it sends the command over it.\<close>

lemma doOnce_reuses_conn:
  assumes "conn sc = Some c" and "doOnce nt cmd args sc w = Return (r, sc1, w1)"
  shows "r = do_answer nt (clock w) (peer c) (cmd # args) \<and>
     trace w1 = trace w @ EvDo c (cmd # args) r # (if isl r then [EvClose c] else [])"
proof (cases "do_answer nt (clock w) (peer c) (cmd # args)")
  case (Inl e)
  show ?thesis
    using assms unfolding doOnce_def conn_Do_def conn_Close_def Let_def
    by (auto simp: Inl)
next
  case (Inr rep)
  show ?thesis
    using assms unfolding doOnce_def conn_Do_def conn_Close_def Let_def
    by (auto simp: Inr)
qed


section \<open>One iteration of the loops\<close>

lemma do_loop_step_error:
  "i < length (addrs sc) \<Longrightarrow> doOnce nt cmd args sc w = Return (Inl e, sc1, w1) \<Longrightarrow>
     do_loop nt cmd args i r sc w =
       do_loop nt cmd args (Suc i) (Inl e)
         (sc\<lparr>conn := None, activeAddr := (activeAddr sc + 1) mod length (addrs sc)\<rparr>) w1"
  by (frule doOnce_error) (simp add: do_loop.simps [of nt cmd args i r sc w])

lemma do_loop_step_ok:
  "i < length (addrs sc) \<Longrightarrow> doOnce nt cmd args sc w = Return (Inr rep, sc1, w1) \<Longrightarrow>
     do_loop nt cmd args i r sc w = Return (Inr rep, sc1, w1)"
  by (simp add: do_loop.simps [of nt cmd args i r sc w])

lemma do_loop_done:
  "\<not> i < length (addrs sc) \<Longrightarrow> do_loop nt cmd args i r sc w = Return (r, sc, w)"
  by (simp add: do_loop.simps [of nt cmd args i r sc w])

lemma do_loop_c1_step_error:
  "i < length (addrs sc) \<Longrightarrow> doOnce nt cmd args sc w = Return (Inl e, sc1, w1) \<Longrightarrow>
     do_loop_c1 nt cmd args i r sc w =
       do_loop_c1 nt cmd args (Suc i) (Inl e)
         (sc\<lparr>conn := None, activeAddr := (activeAddr sc + 1) mod length (addrs sc)\<rparr>) w1"
  by (frule doOnce_error) (simp add: do_loop_c1.simps [of nt cmd args i r sc w])

lemma do_loop_c1_step_ok:
  "i < length (addrs sc) \<Longrightarrow> doOnce nt cmd args sc w = Return (Inr rep, sc1, w1) \<Longrightarrow>
     do_loop_c1 nt cmd args i r sc w = do_loop_c1 nt cmd args (Suc i) (Inr rep) sc1 w1"
  by (simp add: do_loop_c1.simps [of nt cmd args i r sc w])

lemma do_loop_c1_done:
  "\<not> i < length (addrs sc) \<Longrightarrow> do_loop_c1 nt cmd args i r sc w = Return (r, sc, w)"
  by (simp add: do_loop_c1.simps [of nt cmd args i r sc w])

section \<open>A successful attempt\<close>

text \<open>
  In \<open>do\<close> of lines 276-291 a successful attempt ends the loop: the result and the
  state are those of the attempt, \<open>activeAddr\<close> is untouched, the connection used stays
  in \<open>conn\<close>, and a first attempt that succeeds is the only query of the call.
\<close>

lemma do_stops_at_success:
  assumes "addrs sc \<noteq> []"
    and "doOnce nt cmd args sc w = Return (Inr rep, sc1, w1)"
  shows "do nt cmd args sc w = Return (Inr rep, sc1, w1) \<and>
     activeAddr sc1 = activeAddr sc \<and>
     queries (trace w1) = Suc (queries (trace w)) \<and>
     attempts (trace w1) = Suc (attempts (trace w)) \<and>
     (\<exists>c. conn sc1 = Some c \<and> (conn sc = None \<or> conn sc = Some c))"
  using assms doOnce_queries [OF assms(2)] doOnce_one_attempt [OF assms(2)]
    doOnce_frame [OF assms(2)] doOnce_success_conn [OF assms(2)]
  by (auto simp: do_def do_loop_step_ok)

text \<open>
  Claim C1. In the retry loop \<open>do\<close> a successful attempt stops the iteration at once
  and leaves connection and \<open>activeAddr\<close> as they are; a first attempt that succeeds
  makes exactly one query. The loop of lines 276-291 does so (lemma above). The loop of
  lines 94-108 has no \<open>break\<close>: with two monitors that answer every command it sends
  the query twice where lines 276-291 send it once, and when the first query is answered
  and the second is not, it returns the error, closes the connection and moves
  \<open>activeAddr\<close> to 1, where lines 276-291 return the answer and keep both.
\<close>

theorem do_c1_repeats_query_after_success:
  "(case do_c1 net_up ''SENTINEL'' [''get-master-addr-by-name'', ''mycluster''] two_monitors world0 of
      Panic \<Rightarrow> False
    | Return (r, sc1, w1) \<Rightarrow>
        r = Inr (RArray [RBulk ''10.0.0.9'', RBulk ''6379'']) \<and> queries (trace w1) = 2) \<and>
   (case do net_up ''SENTINEL'' [''get-master-addr-by-name'', ''mycluster''] two_monitors world0 of
      Panic \<Rightarrow> False
    | Return (r, sc1, w1) \<Rightarrow>
        r = Inr (RArray [RBulk ''10.0.0.9'', RBulk ''6379'']) \<and> queries (trace w1) = 1) \<and>
   (case do_c1 net_once ''SENTINEL'' [''get-master-addr-by-name'', ''mycluster''] two_monitors world0 of
      Panic \<Rightarrow> False
    | Return (r, sc1, w1) \<Rightarrow>
        r = Inl (Err ''read: connection reset by peer'') \<and>
        conn sc1 = None \<and> activeAddr sc1 = 1) \<and>
   (case do net_once ''SENTINEL'' [''get-master-addr-by-name'', ''mycluster''] two_monitors world0 of
      Panic \<Rightarrow> False
    | Return (r, sc1, w1) \<Rightarrow>
        r = Inr (RArray [RBulk ''10.0.0.9'', RBulk ''6379'']) \<and>
        conn sc1 = Some (Conn 0 ''10.0.0.1:26379'') \<and> activeAddr sc1 = 0)"
  by (simp add: do_c1_def do_def do_loop_c1.simps do_loop.simps doOnce_def redis_Dial_def
      conn_Do_def conn_Close_def two_monitors_def NewClient_def net_up_def net_once_def
      world0_def Let_def queries_def)

section \<open>Configuration\<close>

text \<open>
  Claim C2. \<open>NewPool\<close> checks the configuration first: it returns the error of
  \<open>validateConfig\<close>, and no pool, exactly when the master name is empty, the list of
  sentinel addresses is empty, one of the three sentinel timeouts is zero or the connect
  timeout of the data node is zero; otherwise it returns a pool whose client holds the
  sentinel addresses and has no connection. \<open>NewPool\<close> takes and returns no world: it
  makes no network call at all.
\<close>

theorem NewPool_validates:
  "((\<exists>e. NewPool conf = Inl e \<and> validateConfig conf = Some e) \<longleftrightarrow>
      (Master conf = [] \<or> Sentinels conf = [] \<or>
       Connect (SentinelTimeouts conf) = 0 \<or> Read (SentinelTimeouts conf) = 0 \<or>
       Write (SentinelTimeouts conf) = 0 \<or> Connect (RedisTimeouts conf) = 0)) \<and>
   ((\<exists>p. NewPool conf = Inr p \<and> conf_of p = conf \<and>
          sentConn p = NewClient (Sentinels conf)
            [DialConnectTimeout (Connect (SentinelTimeouts conf)),
             DialReadTimeout (Read (SentinelTimeouts conf)),
             DialWriteTimeout (Write (SentinelTimeouts conf))] \<and>
          conn (sentConn p) = None) \<longleftrightarrow>
      \<not> (Master conf = [] \<or> Sentinels conf = [] \<or>
         Connect (SentinelTimeouts conf) = 0 \<or> Read (SentinelTimeouts conf) = 0 \<or>
         Write (SentinelTimeouts conf) = 0 \<or> Connect (RedisTimeouts conf) = 0))"
  by (auto simp: NewPool_def validateConfig_def NewClient_def split: option.splits if_splits)

theorem NewPool_validates_witness:
  "NewPool (config0\<lparr>Master := []\<rparr>) = Inl (Err ''master is not set'') \<and>
   NewPool (config0\<lparr>Sentinels := []\<rparr>) = Inl (Err ''sentinel array is not set'') \<and>
   NewPool (config0\<lparr>SentinelTimeouts := \<lparr>Connect = Second, Read = 0, Write = Second\<rparr>\<rparr>)
     = Inl (Err ''sentinel timeouts are not set'') \<and>
   NewPool (config0\<lparr>RedisTimeouts := \<lparr>Connect = 0, Read = Second, Write = Second\<rparr>\<rparr>)
     = Inl (Err ''redis timeouts are not set'') \<and>
   (\<exists>p. NewPool config0 = Inr p)"
  using NewPool_validates [of config0] NewPool_validates [of "config0\<lparr>Master := []\<rparr>"]
  by (simp add: NewPool_def validateConfig_def config0_def Second_def)

text \<open>
  \<open>NewPool\<close> of lines 34-74 has no error to return and checks nothing: it panics on
  fewer than three sentinel timeouts and returns a pool for every other configuration,
  an empty name, an empty address list and timeouts of zero included.
\<close>

lemma NewPool_c1_checks_nothing:
  "(NewPool_c1 conf = Panic \<longleftrightarrow> length (SentinelTimeouts_c1 conf) < 3) \<and>
   (\<exists>p. NewPool_c1 cluster_config0 = Return p)"
  by (simp add: NewPool_c1_def cluster_config0_def)

section \<open>Every monitor fails\<close>

lemma doOnce_fails:
  assumes "\<forall>t. \<forall>a \<in> set (addrs sc). isl (do_answer nt t a (cmd # args))"
    and "activeAddr sc < length (addrs sc)"
    and "\<forall>c. conn sc = Some c \<longrightarrow> peer c \<in> set (addrs sc)"
  shows "\<exists>e w1. doOnce nt cmd args sc w = Return (Inl e, sc\<lparr>conn := None\<rparr>, w1)"
proof -
  obtain r sc1 w1 where d: "doOnce nt cmd args sc w = Return (r, sc1, w1)"
    using doOnce_total [OF assms(2)] by blast
  have "addrs sc ! activeAddr sc \<in> set (addrs sc)"
    using assms(2) by simp
  then have "isl r"
    using d assms(1,3)
    by (auto simp: doOnce_def redis_Dial_def conn_Do_def Let_def
        split: option.splits if_splits prod.splits sum.splits)
  then obtain e where "r = Inl e" by (cases r) auto
  with d doOnce_error [of nt cmd args sc w e sc1 w1] show ?thesis by auto
qed

lemma rotate_mod:
  assumes "Suc i < (n::nat)"
  shows "((a + 1) mod n + (n - Suc i)) mod n = (a + (n - i)) mod n"
proof -
  have "((a + 1) mod n + (n - Suc i)) mod n = ((a + 1) + (n - Suc i)) mod n"
    by (rule mod_add_left_eq)
  also have "(a + 1) + (n - Suc i) = a + (n - i)"
    using assms by simp
  finally show ?thesis .
qed

text \<open>
  From iteration \<open>i\<close> on, a loop whose every attempt fails makes the remaining
  \<open>len(addrs) - i\<close> attempts, rotates \<open>activeAddr\<close> as often, and returns the error of the
  last one.
\<close>

lemma do_loop_all_fail:
  "\<forall>t. \<forall>a \<in> set (addrs sc). isl (do_answer nt t a (cmd # args)) \<Longrightarrow>
   \<forall>c. conn sc = Some c \<longrightarrow> peer c \<in> set (addrs sc) \<Longrightarrow>
   i < length (addrs sc) \<Longrightarrow> activeAddr sc < length (addrs sc) \<Longrightarrow>
    \<exists>e w1. do_loop nt cmd args i r sc w =
        Return (Inl e,
          sc\<lparr>conn := None,
             activeAddr := (activeAddr sc + (length (addrs sc) - i)) mod length (addrs sc)\<rparr>, w1)
      \<and> attempts (trace w1) = attempts (trace w) + (length (addrs sc) - i)
      \<and> last_attempt_error (trace w1) = Some e"
proof (induction "length (addrs sc) - i" arbitrary: i r sc w)
  case 0
  then show ?case by simp
next
  case (Suc k)
  let ?n = "length (addrs sc)"
  let ?sc = "sc\<lparr>conn := None, activeAddr := (activeAddr sc + 1) mod ?n\<rparr>"
  obtain e w1 where d: "doOnce nt cmd args sc w = Return (Inl e, sc\<lparr>conn := None\<rparr>, w1)"
    using doOnce_fails [OF Suc.prems(1) Suc.prems(4) Suc.prems(2)] by blast
  have step: "do_loop nt cmd args i r sc w = do_loop nt cmd args (Suc i) (Inl e) ?sc w1"
    using do_loop_step_error [OF Suc.prems(3) d] .
  have att: "attempts (trace w1) = Suc (attempts (trace w))"
    using doOnce_one_attempt [OF d] .
  have lerr: "last_attempt_error (trace w1) = Some e"
    using doOnce_last_error [OF d] .
  show ?case
  proof (cases "Suc i < ?n")
    case False
    with Suc.prems have i: "Suc i = ?n" by simp
    then have "?n - i = 1" by simp
    moreover have "do_loop nt cmd args (Suc i) (Inl e) ?sc w1 = Return (Inl e, ?sc, w1)"
      using False by (simp add: do_loop_done)
    ultimately show ?thesis using step att lerr by simp
  next
    case True
    have k: "k = length (addrs ?sc) - Suc i" using Suc.hyps(2) by simp
    have pos: "0 < ?n" using Suc.prems(3) by linarith
    have a: "activeAddr ?sc < length (addrs ?sc)" using pos by simp
    have t: "Suc i < length (addrs ?sc)" using True by simp
    have f: "\<forall>t. \<forall>a \<in> set (addrs ?sc). isl (do_answer nt t a (cmd # args))"
      using Suc.prems(1) by simp
    have c: "\<forall>c. conn ?sc = Some c \<longrightarrow> peer c \<in> set (addrs ?sc)" by simp
    from Suc.hyps(1) [OF k f c t a, of "Inl e" w1]
    obtain e' w2 where
      r: "do_loop nt cmd args (Suc i) (Inl e) ?sc w1 =
            Return (Inl e',
              ?sc\<lparr>conn := None,
                 activeAddr :=
                   (activeAddr ?sc + (length (addrs ?sc) - Suc i)) mod length (addrs ?sc)\<rparr>, w2)"
      and a2: "attempts (trace w2) = attempts (trace w1) + (length (addrs ?sc) - Suc i)"
      and l2: "last_attempt_error (trace w2) = Some e'"
      by blast
    have m: "((activeAddr sc + 1) mod ?n + (?n - Suc i)) mod ?n = (activeAddr sc + (?n - i)) mod ?n"
      using True by (rule rotate_mod)
    show ?thesis
      using step r a2 l2 att m True by (auto simp: Suc_diff_Suc)
  qed
qed

text \<open>When every attempt fails the \<open>break\<close> is never reached: the two loops agree.\<close>

lemma do_loop_c1_all_fail:
  "\<forall>t. \<forall>a \<in> set (addrs sc). isl (do_answer nt t a (cmd # args)) \<Longrightarrow>
   \<forall>c. conn sc = Some c \<longrightarrow> peer c \<in> set (addrs sc) \<Longrightarrow>
   i < length (addrs sc) \<Longrightarrow> activeAddr sc < length (addrs sc) \<Longrightarrow>
     do_loop_c1 nt cmd args i r sc w = do_loop nt cmd args i r sc w"
proof (induction "length (addrs sc) - i" arbitrary: i r sc w)
  case 0
  then show ?case by simp
next
  case (Suc k)
  let ?n = "length (addrs sc)"
  let ?sc = "sc\<lparr>conn := None, activeAddr := (activeAddr sc + 1) mod ?n\<rparr>"
  obtain e w1 where d: "doOnce nt cmd args sc w = Return (Inl e, sc\<lparr>conn := None\<rparr>, w1)"
    using doOnce_fails [OF Suc.prems(1) Suc.prems(4) Suc.prems(2)] by blast
  have s2: "do_loop nt cmd args i r sc w = do_loop nt cmd args (Suc i) (Inl e) ?sc w1"
    using do_loop_step_error [OF Suc.prems(3) d] .
  have s1: "do_loop_c1 nt cmd args i r sc w = do_loop_c1 nt cmd args (Suc i) (Inl e) ?sc w1"
    using do_loop_c1_step_error [OF Suc.prems(3) d] .
  show ?case
  proof (cases "Suc i < ?n")
    case False
    then show ?thesis using s1 s2 by (simp add: do_loop_done do_loop_c1_done)
  next
    case True
    have k: "k = length (addrs ?sc) - Suc i" using Suc.hyps(2) by simp
    have pos: "0 < ?n" using Suc.prems(3) by linarith
    have a: "activeAddr ?sc < length (addrs ?sc)" using pos by simp
    have t: "Suc i < length (addrs ?sc)" using True by simp
    have f: "\<forall>t. \<forall>a \<in> set (addrs ?sc). isl (do_answer nt t a (cmd # args))"
      using Suc.prems(1) by simp
    have c: "\<forall>c. conn ?sc = Some c \<longrightarrow> peer c \<in> set (addrs ?sc)" by simp
    show ?thesis
      using Suc.hyps(1) [OF k f c t a, of "Inl e" w1] s1 s2 by simp
  qed
qed

text \<open>
  Claim C3. If every one of the \<open>n\<close> configured monitors fails (no monitor of the
  list ever answers the query; a dial may fail or not), \<open>MasterAddress\<close> makes exactly
  \<open>n\<close> attempts and returns the error of the last attempt, and no address. The
  connection is gone and \<open>activeAddr\<close>, rotated \<open>n\<close> times, is where it was. This holds
  for the loop of lines 276-291 and for the loop of lines 94-108, which return the same.
\<close>

theorem MasterAddress_all_monitors_fail:
  assumes "\<forall>t. \<forall>a \<in> set (addrs sc).
             isl (do_answer nt t a [''SENTINEL'', ''get-master-addr-by-name'', name])"
    and "\<forall>c. conn sc = Some c \<longrightarrow> peer c \<in> set (addrs sc)"
    and "activeAddr sc < length (addrs sc)"
  shows "\<exists>e w1.
      MasterAddress nt name sc w = Return (([], Some e), sc\<lparr>conn := None\<rparr>, w1)
    \<and> MasterAddress_c1 nt name sc w = Return (([], Some e), sc\<lparr>conn := None\<rparr>, w1)
    \<and> attempts (trace w1) = attempts (trace w) + length (addrs sc)
    \<and> last_attempt_error (trace w1) = Some e"
proof -
  let ?cmd = "''SENTINEL''" and ?args = "[''get-master-addr-by-name'', name]"
  have pos: "0 < length (addrs sc)" using assms(3) by linarith
  obtain e w1 where
    r: "do_loop nt ?cmd ?args 0 (Inr RNil) sc w =
          Return (Inl e,
            sc\<lparr>conn := None,
               activeAddr := (activeAddr sc + (length (addrs sc) - 0)) mod length (addrs sc)\<rparr>, w1)"
    and a: "attempts (trace w1) = attempts (trace w) + (length (addrs sc) - 0)"
    and l: "last_attempt_error (trace w1) = Some e"
    using do_loop_all_fail [OF assms(1) assms(2) pos assms(3), of "Inr RNil" w] by blast
  have c1: "do_loop_c1 nt ?cmd ?args 0 (Inr RNil) sc w = do_loop nt ?cmd ?args 0 (Inr RNil) sc w"
    using do_loop_c1_all_fail [OF assms(1) assms(2) pos assms(3)] .
  have st: "sc\<lparr>conn := None,
               activeAddr := (activeAddr sc + (length (addrs sc) - 0)) mod length (addrs sc)\<rparr>
            = sc\<lparr>conn := None\<rparr>"
    using assms(3) by simp
  show ?thesis
    using r a l c1 st by (simp add: MasterAddress_def MasterAddress_c1_def do_def do_c1_def)
qed

theorem MasterAddress_all_monitors_fail_witness:
  "\<exists>e w1. MasterAddress net_down ''mycluster'' two_monitors world0 =
          Return (([], Some e), two_monitors, w1)
      \<and> MasterAddress_c1 net_down ''mycluster'' two_monitors world0 =
          Return (([], Some e), two_monitors, w1)
      \<and> attempts (trace w1) = 2
      \<and> last_attempt_error (trace w1) = Some e"
  using MasterAddress_all_monitors_fail [of two_monitors net_down "''mycluster''" world0]
  by (simp add: two_monitors_def NewClient_def net_down_def world0_def attempts_def
      numeral_2_eq_2)

text \<open>The same run, evaluated: the dial error of the first attempt is not the one returned.\<close>

lemma net_down_example:
  "MasterAddress net_down ''mycluster'' two_monitors world0 =
     Return (([], Some (Err ''read: connection reset by peer'')), two_monitors,
       \<lparr>clock = 3,
        trace =
          [EvDial ''10.0.0.1:26379'' (Inl (Err ''dial tcp: i/o timeout'')),
           EvDial ''10.0.0.2:26379'' (Inr (Conn 1 ''10.0.0.2:26379'')),
           EvDo (Conn 1 ''10.0.0.2:26379'') [''SENTINEL'', ''get-master-addr-by-name'', ''mycluster'']
             (Inl (Err ''read: connection reset by peer'')),
           EvClose (Conn 1 ''10.0.0.2:26379'')],
        live = []\<rparr>)"
  by (simp add: MasterAddress_def do_def do_loop.simps doOnce_def redis_Dial_def conn_Do_def
      conn_Close_def two_monitors_def NewClient_def net_down_def world0_def Let_def)

section \<open>Failing over to the next monitor\<close>



text \<open>
  With a single monitor a call whose attempt fails ends there, with that error: no
  attempt follows the failure.
\<close>

lemma MasterAddress_single_monitor:
  assumes "length (addrs sc) = 1"
    and "doOnce nt ''SENTINEL'' [''get-master-addr-by-name'', name] sc w = Return (Inl e, sc1, w1)"
  shows "MasterAddress nt name sc w =
       Return (([], Some e), sc\<lparr>conn := None, activeAddr := 0\<rparr>, w1) \<and>
     attempts (trace w1) = attempts (trace w) + 1"
proof -
  have i0: "0 < length (addrs sc)" using assms(1) by simp
  show ?thesis
    using do_loop_step_error [OF i0 assms(2), of "Inr RNil"] doOnce_one_attempt [OF assms(2)]
      assms(1)
    by (simp add: MasterAddress_def do_def do_loop_done)
qed

text \<open>
  The loop of lines 94-108 goes on after the success and sends the query again over the
  same connection, in each iteration that is left. It returns \<open>host:port\<close> all the same
  when monitor \<open>(i + 1) mod n\<close> answers whenever it is asked (and monitor \<open>i\<close> never):
\<close>

lemma do_loop_c1_keeps_answering:
  "conn sc = Some c \<Longrightarrow> \<forall>t. do_answer nt t (peer c) (cmd # args) = Inr rep \<Longrightarrow>
     \<exists>w1. do_loop_c1 nt cmd args i (Inr rep) sc w = Return (Inr rep, sc, w1)"
proof (induction "length (addrs sc) - i" arbitrary: i w)
  case 0
  then show ?case by (simp add: do_loop_c1_done)
next
  case (Suc k)
  then have i: "i < length (addrs sc)" by simp
  have d: "doOnce nt cmd args sc w =
      Return (Inr rep, sc,
        w\<lparr>clock := Suc (clock w), trace := trace w @ [EvDo c (cmd # args) (Inr rep)]\<rparr>)"
    using Suc.prems by (simp add: doOnce_def conn_Do_def Let_def)
  have k: "k = length (addrs sc) - Suc i" using Suc.hyps(2) by simp
  show ?case
    using Suc.hyps(1) [OF k Suc.prems] do_loop_c1_step_ok [OF i d] by simp
qed

lemma MasterAddress_c1_fails_over:
  assumes a: "activeAddr sc < length (addrs sc)"
    and cn: "\<forall>c. conn sc = Some c \<longrightarrow> peer c = addrs sc ! activeAddr sc"
    and down: "\<forall>t. isl (do_answer nt t (addrs sc ! activeAddr sc)
                 [''SENTINEL'', ''get-master-addr-by-name'', name])"
    and up: "\<forall>t. dial_answer nt t (addrs sc ! ((activeAddr sc + 1) mod length (addrs sc))) = None \<and>
               do_answer nt t (addrs sc ! ((activeAddr sc + 1) mod length (addrs sc)))
                 [''SENTINEL'', ''get-master-addr-by-name'', name]
               = Inr (RArray [RBulk host, RBulk port])"
  shows "\<exists>c w2. MasterAddress_c1 nt name sc w =
        Return ((host @ '':'' @ port, None),
          sc\<lparr>conn := Some c, activeAddr := (activeAddr sc + 1) mod length (addrs sc)\<rparr>, w2) \<and>
      peer c = addrs sc ! ((activeAddr sc + 1) mod length (addrs sc))"
proof -
  let ?cmd = "''SENTINEL''" and ?args = "[''get-master-addr-by-name'', name]"
  let ?n = "length (addrs sc)"
  let ?j = "(activeAddr sc + 1) mod ?n"
  let ?rep = "RArray [RBulk host, RBulk port]"
  let ?sc = "sc\<lparr>conn := None, activeAddr := ?j\<rparr>"
  have ne: "?j \<noteq> activeAddr sc"
  proof
    assume "?j = activeAddr sc"
    with down up have "isl (Inr ?rep :: error + reply)" by metis
    then show False by simp
  qed
  have n2: "1 < ?n"
  proof (rule ccontr)
    assume "\<not> 1 < ?n"
    with a have "?n = 1" by simp
    with a ne show False by simp
  qed
  have i0: "0 < ?n" using a by linarith
  obtain r0 sc1 w1 where d: "doOnce nt ?cmd ?args sc w = Return (r0, sc1, w1)"
    using doOnce_total [OF a] by blast
  have "isl r0"
    using d down cn
    by (auto simp: doOnce_def redis_Dial_def conn_Do_def Let_def
        split: option.splits if_splits prod.splits sum.splits)
  then obtain e where r0: "r0 = Inl e" by (cases r0) auto
  have s1: "do_loop_c1 nt ?cmd ?args 0 (Inr RNil) sc w =
      do_loop_c1 nt ?cmd ?args (Suc 0) (Inl e) ?sc w1"
    using do_loop_c1_step_error [OF i0] d r0 by blast
  let ?c = "Conn (clock w1) (addrs sc ! ?j)"
  let ?w2 = "w1\<lparr>clock := Suc (Suc (clock w1)),
                 trace := trace w1 @
                   [EvDial (addrs sc ! ?j) (Inr ?c), EvDo ?c (?cmd # ?args) (Inr ?rep)],
                 live := ?c # live w1\<rparr>"
  have j: "?j < ?n" using i0 by simp
  have d2: "doOnce nt ?cmd ?args ?sc w1 = Return (Inr ?rep, ?sc\<lparr>conn := Some ?c\<rparr>, ?w2)"
    using up j by (simp add: doOnce_def redis_Dial_def conn_Do_def Let_def)
  have i1: "Suc 0 < length (addrs ?sc)" using n2 by simp
  have s2: "do_loop_c1 nt ?cmd ?args (Suc 0) (Inl e) ?sc w1 =
      do_loop_c1 nt ?cmd ?args (Suc (Suc 0)) (Inr ?rep) (?sc\<lparr>conn := Some ?c\<rparr>) ?w2"
    using do_loop_c1_step_ok [OF i1 d2] .
  have "\<exists>w3. do_loop_c1 nt ?cmd ?args (Suc (Suc 0)) (Inr ?rep) (?sc\<lparr>conn := Some ?c\<rparr>) ?w2 =
      Return (Inr ?rep, ?sc\<lparr>conn := Some ?c\<rparr>, w3)"
    using do_loop_c1_keeps_answering [of "?sc\<lparr>conn := Some ?c\<rparr>" ?c nt ?cmd ?args ?rep] up
    by simp
  then obtain w3 where
    s3: "do_loop_c1 nt ?cmd ?args (Suc (Suc 0)) (Inr ?rep) (?sc\<lparr>conn := Some ?c\<rparr>) ?w2 =
      Return (Inr ?rep, ?sc\<lparr>conn := Some ?c\<rparr>, w3)" by blast
  have "MasterAddress_c1 nt name sc w =
      Return ((host @ '':'' @ port, None), sc\<lparr>conn := Some ?c, activeAddr := ?j\<rparr>, w3)"
    using s1 s2 s3 by (simp add: MasterAddress_c1_def do_c1_def)
  then show ?thesis by auto
qed

section \<open>A failed attempt\<close>

text \<open>
  Claim C5, as amended. An attempt of the retry loop fails when \<open>doOnce\<close> returns an
  error: the error of the dial, or the error of \<open>conn.Do\<close> (an I/O error, a protocol
  error, an error reply). Whatever the error, the attempt leaves the client with no
  connection and otherwise as it was, and the connection the client had or had just
  dialed is closed. The loop then advances \<open>activeAddr\<close> to
  \<open>(activeAddr + 1) mod len(addrs)\<close> and touches nothing else: if the attempt was the
  last one, the call returns the error with the client in that state; if not, the next
  attempt dials \<open>addrs[(activeAddr + 1) mod len(addrs)]\<close>, and when it succeeds the
  loop of lines 276-291 returns its reply with that connection kept (the loop of lines
  94-108 goes into the iteration after it). A reply that arrives without error and that
  \<open>redis.Strings\<close> then rejects is no failed attempt: \<open>MasterAddress\<close> decodes after
  the loop has ended, so it returns the decoding error after that one attempt, with the
  connection kept open and in place and \<open>activeAddr\<close> not advanced.
\<close>

theorem failed_attempt_closes_and_rotates:
  "(i < length (addrs sc) \<and> doOnce nt cmd args sc w = Return (Inl e, sc1, w1) \<longrightarrow>
      sc1 = sc\<lparr>conn := None\<rparr> \<and>
      live w1 = (case conn sc of None \<Rightarrow> live w | Some c \<Rightarrow> remove1 c (live w)) \<and>
      do_loop nt cmd args i r sc w = do_loop nt cmd args (Suc i) (Inl e) (rotated sc) w1 \<and>
      do_loop_c1 nt cmd args i r sc w = do_loop_c1 nt cmd args (Suc i) (Inl e) (rotated sc) w1 \<and>
      (Suc i = length (addrs sc) \<longrightarrow>
         do_loop nt cmd args i r sc w = Return (Inl e, rotated sc, w1) \<and>
         do_loop_c1 nt cmd args i r sc w = Return (Inl e, rotated sc, w1)) \<and>
      (\<forall>rep sc2 w2.
         Suc i < length (addrs sc) \<and>
         doOnce nt cmd args (rotated sc) w1 = Return (Inr rep, sc2, w2) \<longrightarrow>
         sc2 = (rotated sc)\<lparr>conn :=
                 Some (Conn (clock w1) (addrs sc ! ((activeAddr sc + 1) mod length (addrs sc))))\<rparr> \<and>
         do_loop nt cmd args i r sc w = Return (Inr rep, sc2, w2) \<and>
         do_loop_c1 nt cmd args i r sc w =
           do_loop_c1 nt cmd args (Suc (Suc i)) (Inr rep) sc2 w2)) \<and>
   (addrs sc \<noteq> [] \<and>
    doOnce nt ''SENTINEL'' [''get-master-addr-by-name'', name] sc w = Return (Inr rep', sc3, w3) \<and>
    redis_Strings (Inr rep') = (res, Some e') \<longrightarrow>
      MasterAddress nt name sc w = Return ((Join res '':'', Some e'), sc3, w3) \<and>
      sc3 = sc\<lparr>conn := Some (case conn sc of
                                None \<Rightarrow> Conn (clock w) (addrs sc ! activeAddr sc)
                              | Some c \<Rightarrow> c)\<rparr> \<and>
      live w3 = (case conn sc of
                   None \<Rightarrow> Conn (clock w) (addrs sc ! activeAddr sc) # live w
                 | Some c \<Rightarrow> live w) \<and>
      attempts (trace w3) = Suc (attempts (trace w)))"
proof (intro conjI impI allI; (elim conjE)?)
  assume i: "i < length (addrs sc)" and d: "doOnce nt cmd args sc w = Return (Inl e, sc1, w1)"
  show "sc1 = sc\<lparr>conn := None\<rparr>" using doOnce_error [OF d] .
  show "live w1 = (case conn sc of None \<Rightarrow> live w | Some c \<Rightarrow> remove1 c (live w))"
    using doOnce_error_live [OF d] .
  show s: "do_loop nt cmd args i r sc w = do_loop nt cmd args (Suc i) (Inl e) (rotated sc) w1"
    using do_loop_step_error [OF i d] by (simp add: rotated_def)
  show s1: "do_loop_c1 nt cmd args i r sc w = do_loop_c1 nt cmd args (Suc i) (Inl e) (rotated sc) w1"
    using do_loop_c1_step_error [OF i d] by (simp add: rotated_def)
  {
    assume l: "Suc i = length (addrs sc)"
    then have n: "\<not> Suc i < length (addrs (rotated sc))" by (simp add: rotated_def)
    show "do_loop nt cmd args i r sc w = Return (Inl e, rotated sc, w1)"
      using s do_loop_done [OF n] by simp
    show "do_loop_c1 nt cmd args i r sc w = Return (Inl e, rotated sc, w1)"
      using s1 do_loop_c1_done [OF n] by simp
  }
  {
    fix rep sc2 w2
    assume l: "Suc i < length (addrs sc)"
      and d2: "doOnce nt cmd args (rotated sc) w1 = Return (Inr rep, sc2, w2)"
    have n: "Suc i < length (addrs (rotated sc))" using l by (simp add: rotated_def)
    show "sc2 = (rotated sc)\<lparr>conn :=
                 Some (Conn (clock w1) (addrs sc ! ((activeAddr sc + 1) mod length (addrs sc))))\<rparr>"
      using doOnce_success_state [OF d2] by (simp add: rotated_def)
    show "do_loop nt cmd args i r sc w = Return (Inr rep, sc2, w2)"
      using s do_loop_step_ok [OF n d2] by simp
    show "do_loop_c1 nt cmd args i r sc w =
           do_loop_c1 nt cmd args (Suc (Suc i)) (Inr rep) sc2 w2"
      using s1 do_loop_c1_step_ok [OF n d2] by simp
  }
next
  assume ne: "addrs sc \<noteq> []"
    and d: "doOnce nt ''SENTINEL'' [''get-master-addr-by-name'', name] sc w = Return (Inr rep', sc3, w3)"
    and dec: "redis_Strings (Inr rep') = (res, Some e')"
  show "MasterAddress nt name sc w = Return ((Join res '':'', Some e'), sc3, w3)"
    using do_stops_at_success [OF ne d] dec by (simp add: MasterAddress_def)
  show "sc3 = sc\<lparr>conn := Some (case conn sc of
                                None \<Rightarrow> Conn (clock w) (addrs sc ! activeAddr sc)
                              | Some c \<Rightarrow> c)\<rparr>"
    using doOnce_success_state [OF d] by simp
  show "live w3 = (case conn sc of
                   None \<Rightarrow> Conn (clock w) (addrs sc ! activeAddr sc) # live w
                 | Some c \<Rightarrow> live w)"
    using doOnce_success_state [OF d] by simp
  show "attempts (trace w3) = Suc (attempts (trace w))"
    using doOnce_one_attempt [OF d] .
qed

theorem failed_attempt_closes_and_rotates_witness:
  "do_loop net_second ''SENTINEL'' [''get-master-addr-by-name'', ''mycluster''] 0 (Inr RNil)
       connected_client connected_world =
     Return (Inr (RArray [RBulk ''10.0.0.9'', RBulk ''6379'']),
       two_monitors\<lparr>conn := Some (Conn 3 ''10.0.0.2:26379''), activeAddr := 1\<rparr>, second_world) \<and>
   do_loop net_second ''SENTINEL'' [''get-master-addr-by-name'', ''mycluster''] 1 (Inr RNil)
       connected_client connected_world =
     Return (Inl (Err ''read: connection reset by peer''), two_monitors\<lparr>activeAddr := 1\<rparr>,
       reset_world) \<and>
   live reset_world = [] \<and>
   MasterAddress net_unknown ''mycluster'' two_monitors world0 =
     Return (([], Some ErrNil), connected_client, unknown_world)"
proof -
  let ?cmd = "''SENTINEL''" and ?args = "[''get-master-addr-by-name'', ''mycluster'']"
  let ?err = "Err ''read: connection reset by peer''"
  let ?rep = "RArray [RBulk ''10.0.0.9'', RBulk ''6379'']"
  have n: "length (addrs connected_client) = 2" "addrs two_monitors \<noteq> []"
    by (simp_all add: connected_client_def two_monitors_def NewClient_def)
  have rot: "rotated connected_client = two_monitors\<lparr>activeAddr := 1\<rparr>"
    by (simp add: rotated_def connected_client_def two_monitors_def NewClient_def)
  have h: "doOnce net_second ?cmd ?args connected_client connected_world =
      Return (Inl ?err, connected_client\<lparr>conn := None\<rparr>, reset_world)"
    by (simp add: doOnce_def conn_Do_def conn_Close_def Let_def connected_client_def
        connected_world_def reset_world_def two_monitors_def NewClient_def net_second_def)
  have h2: "doOnce net_second ?cmd ?args (rotated connected_client) reset_world =
      Return (Inr ?rep, two_monitors\<lparr>conn := Some (Conn 3 ''10.0.0.2:26379''), activeAddr := 1\<rparr>,
        second_world)"
    by (simp add: rot doOnce_def redis_Dial_def conn_Do_def Let_def two_monitors_def NewClient_def
        net_second_def reset_world_def second_world_def connected_world_def)
  have h3: "doOnce net_unknown ?cmd ?args two_monitors world0 =
      Return (Inr RNil, connected_client, unknown_world)"
    by (simp add: doOnce_def redis_Dial_def conn_Do_def Let_def two_monitors_def NewClient_def
        net_unknown_def world0_def connected_client_def unknown_world_def)
  have h4: "redis_Strings (Inr RNil) = ([], Some ErrNil)" by simp
  have i0: "0 < length (addrs connected_client)" and l0: "Suc 0 < length (addrs connected_client)"
    and i1: "1 < length (addrs connected_client)" and l1: "Suc 1 = length (addrs connected_client)"
    using n by simp_all
  have a: "do_loop net_second ?cmd ?args 0 (Inr RNil) connected_client connected_world =
      Return (Inr ?rep, two_monitors\<lparr>conn := Some (Conn 3 ''10.0.0.2:26379''), activeAddr := 1\<rparr>,
        second_world)"
    using failed_attempt_closes_and_rotates [where i = 0 and sc = connected_client
        and nt = net_second and cmd = ?cmd and args = ?args and w = connected_world
        and e = ?err and ?sc1.0 = "connected_client\<lparr>conn := None\<rparr>" and ?w1.0 = reset_world
        and r = "Inr RNil"] i0 l0 h h2
    by blast
  have "do_loop net_second ?cmd ?args 1 (Inr RNil) connected_client connected_world =
      Return (Inl ?err, rotated connected_client, reset_world)"
    using failed_attempt_closes_and_rotates [where i = 1 and sc = connected_client
        and nt = net_second and cmd = ?cmd and args = ?args and w = connected_world
        and e = ?err and ?sc1.0 = "connected_client\<lparr>conn := None\<rparr>" and ?w1.0 = reset_world
        and r = "Inr RNil"] i1 l1 h
    by blast
  then have b: "do_loop net_second ?cmd ?args 1 (Inr RNil) connected_client connected_world =
      Return (Inl ?err, two_monitors\<lparr>activeAddr := 1\<rparr>, reset_world)"
    by (simp add: rot)
  have "MasterAddress net_unknown ''mycluster'' two_monitors world0 =
      Return ((Join [] '':'', Some ErrNil), connected_client, unknown_world)"
    using failed_attempt_closes_and_rotates [where sc = two_monitors and nt = net_unknown
        and w = world0 and name = "''mycluster''" and rep' = RNil and ?sc3.0 = connected_client
        and ?w3.0 = unknown_world and res = "[]" and e' = ErrNil] h3 h4 n(2)
    by blast
  then have c: "MasterAddress net_unknown ''mycluster'' two_monitors world0 =
      Return (([], Some ErrNil), connected_client, unknown_world)"
    by simp
  have d: "live reset_world = []" by (simp add: reset_world_def)
  from a b d c show ?thesis by (intro conjI)
qed

text \<open>
  Claim C5 as it was stated counts a decode error among the failures after which the
  connection is closed and cleared and \<open>activeAddr\<close> advanced. It is not so: with two
  monitors, when the first answers the query with nil, or with a status line,
  \<open>MasterAddress\<close> returns the error of \<open>redis.Strings\<close> after one attempt, the
  connection to the first monitor is still the client's and still open, and
  \<open>activeAddr\<close> is still 0.
\<close>

theorem decode_error_is_not_a_failed_attempt:
  "(case MasterAddress net_unknown ''mycluster'' two_monitors world0 of
      Panic \<Rightarrow> False
    | Return ((address, err), sc1, w1) \<Rightarrow>
        err = Some (Err ''redigo: nil returned'') \<and>
        conn sc1 = Some (Conn 0 ''10.0.0.1:26379'') \<and> activeAddr sc1 = 0 \<and>
        live w1 = [Conn 0 ''10.0.0.1:26379''] \<and> attempts (trace w1) = 1) \<and>
   (case MasterAddress net_status ''mycluster'' two_monitors world0 of
      Panic \<Rightarrow> False
    | Return ((address, err), sc1, w1) \<Rightarrow>
        err = Some (Err ''redigo: unexpected type for Strings, got type string'') \<and>
        conn sc1 = Some (Conn 0 ''10.0.0.1:26379'') \<and> activeAddr sc1 = 0 \<and>
        live w1 = [Conn 0 ''10.0.0.1:26379''] \<and> attempts (trace w1) = 1)"
  by (simp add: MasterAddress_def do_def do_loop.simps doOnce_def redis_Dial_def conn_Do_def
      Let_def two_monitors_def NewClient_def net_unknown_def net_status_def world0_def ErrNil_def
      attempts_def)

section \<open>The address returned\<close>

text \<open>
  Claim C8. When the query succeeds with a reply of two elements, host and port,
  \<open>MasterAddress\<close> returns them joined as \<open>host:port\<close>, with no error and with the state
  the query left (lines 314-321 and lines 131-138 alike).
\<close>

theorem MasterAddress_joins_host_and_port:
  "(do nt ''SENTINEL'' [''get-master-addr-by-name'', name] sc w =
       Return (Inr (RArray [RBulk host, RBulk port]), sc1, w1) \<longrightarrow>
     MasterAddress nt name sc w = Return ((host @ '':'' @ port, None), sc1, w1)) \<and>
   (do_c1 nt ''SENTINEL'' [''get-master-addr-by-name'', name] sc w =
       Return (Inr (RArray [RBulk host, RBulk port]), sc1, w1) \<longrightarrow>
     MasterAddress_c1 nt name sc w = Return ((host @ '':'' @ port, None), sc1, w1))"
  by (simp add: MasterAddress_def MasterAddress_c1_def)

theorem MasterAddress_joins_host_and_port_witness:
  "MasterAddress net_up ''mycluster'' two_monitors world0 =
     Return ((''10.0.0.9:6379'', None), connected_client, connected_world)"
proof -
  have h: "do net_up ''SENTINEL'' [''get-master-addr-by-name'', ''mycluster''] two_monitors world0 =
      Return (Inr (RArray [RBulk ''10.0.0.9'', RBulk ''6379'']), connected_client, connected_world)"
    by (simp add: do_def do_loop.simps doOnce_def redis_Dial_def conn_Do_def Let_def
        two_monitors_def NewClient_def net_up_def world0_def connected_client_def
        connected_world_def)
  show ?thesis
    using h MasterAddress_joins_host_and_port [of net_up "''mycluster''" two_monitors world0
        "''10.0.0.9''" "''6379''" connected_client connected_world]
    by simp
qed

text \<open>
  The length of the reply is not looked at: an array of bulk strings (or nils) of any
  length is joined with colons and returned without error.
\<close>

lemma MasterAddress_joins_any_length:
  assumes "do nt ''SENTINEL'' [''get-master-addr-by-name'', name] sc w =
       Return (Inr (RArray xs), sc1, w1)"
    and "Strings_elems xs = (ss, None)"
  shows "MasterAddress nt name sc w = Return ((Join ss '':'', None), sc1, w1)"
  using assms by (simp add: MasterAddress_def)

section \<open>The invariant of the client\<close>







section \<open>The role check\<close>

lemma redis_String_Inr:
  "redis_String (Inr x) = Inr s \<longleftrightarrow> x = RBulk s \<or> x = RStatus s"
  by (cases x) auto

text \<open>
  Claim C6. \<open>TestRole\<close> returns nil if and only if the reply to \<open>ROLE\<close> is an array
  whose first element, decoded by \<open>redis.String\<close>, is the expected role, character for
  character. An error of the query, a reply that \<open>redis.Values\<close> rejects, a first
  element that \<open>redis.String\<close> rejects, and a first element that decodes to another
  string each make it return an error.
\<close>

theorem TestRole_succeeds_iff:
  "(TestRole nt c expectedRole w = Return (None, w1) \<longleftrightarrow>
      (\<exists>x xs. conn_Do nt c ''ROLE'' [] w = (Inr (RArray (x # xs)), w1) \<and>
               redis_String (Inr x) = Inr expectedRole)) \<and>
   (\<forall>e. conn_Do nt c ''ROLE'' [] w = (Inl e, w1) \<longrightarrow>
      TestRole nt c expectedRole w = Return (Some e, w1)) \<and>
   (\<forall>r e. conn_Do nt c ''ROLE'' [] w = (Inr r, w1) \<and> redis_Values (Inr r) = Inl e \<longrightarrow>
      TestRole nt c expectedRole w = Return (Some e, w1)) \<and>
   (\<forall>x xs e. conn_Do nt c ''ROLE'' [] w = (Inr (RArray (x # xs)), w1) \<and>
        redis_String (Inr x) = Inl e \<longrightarrow>
      TestRole nt c expectedRole w = Return (Some e, w1)) \<and>
   (\<forall>x xs role. conn_Do nt c ''ROLE'' [] w = (Inr (RArray (x # xs)), w1) \<and>
        redis_String (Inr x) = Inr role \<and> role \<noteq> expectedRole \<longrightarrow>
      TestRole nt c expectedRole w = Return (Some (Err ''role check failed''), w1))"
proof (intro conjI allI impI)
  show "TestRole nt c expectedRole w = Return (None, w1) \<longleftrightarrow>
      (\<exists>x xs. conn_Do nt c ''ROLE'' [] w = (Inr (RArray (x # xs)), w1) \<and>
               redis_String (Inr x) = Inr expectedRole)"
  proof (cases "conn_Do nt c ''ROLE'' [] w")
    case (Pair r w2)
    show ?thesis
    proof (cases r)
      case (Inl e)
      then show ?thesis using Pair by (simp add: TestRole_def)
    next
      case (Inr rep)
      show ?thesis
      proof (cases rep)
        case (RArray ys)
        then show ?thesis
          using Pair Inr
          by (cases ys) (auto simp: TestRole_def split: sum.splits)
      qed (use Pair Inr in \<open>simp_all add: TestRole_def\<close>)
    qed
  qed
qed (auto simp: TestRole_def)

theorem TestRole_succeeds_iff_witness:
  "TestRole (net_role ''master'') data_conn ''master'' data_world =
     Return (None,
       data_world\<lparr>clock := 2,
          trace := trace data_world @
            [EvDo data_conn [''ROLE''] (Inr (RArray [RBulk ''master'', RInt 0, RArray []]))]\<rparr>) \<and>
   TestRole (net_role ''master'') data_conn ''Master'' data_world =
     Return (Some (Err ''role check failed''),
       data_world\<lparr>clock := 2,
          trace := trace data_world @
            [EvDo data_conn [''ROLE''] (Inr (RArray [RBulk ''master'', RInt 0, RArray []]))]\<rparr>) \<and>
   TestRole (net_role ''slave'') data_conn ''master'' data_world =
     Return (Some (Err ''role check failed''),
       data_world\<lparr>clock := 2,
          trace := trace data_world @
            [EvDo data_conn [''ROLE''] (Inr (RArray [RBulk ''slave'', RInt 0, RArray []]))]\<rparr>) \<and>
   TestRole net_down data_conn ''master'' data_world =
     Return (Some (Err ''read: connection reset by peer''),
       data_world\<lparr>clock := 2,
          trace := trace data_world @
            [EvDo data_conn [''ROLE''] (Inl (Err ''read: connection reset by peer''))]\<rparr>)"
  using TestRole_succeeds_iff [of "net_role ''master''" data_conn "''master''" data_world
      "data_world\<lparr>clock := 2,
          trace := trace data_world @
            [EvDo data_conn [''ROLE''] (Inr (RArray [RBulk ''master'', RInt 0, RArray []]))]\<rparr>"]
  by (simp add: TestRole_def conn_Do_def net_role_def net_down_def data_world_def data_conn_def
      Let_def)

text \<open>
  Claim C10. \<open>TestRole\<close> reads \<open>res[0]\<close> without a look at the length of \<open>res\<close>: when the
  reply to \<open>ROLE\<close> is an empty array, \<open>redis.Values\<close> returns an empty slice and no
  error, and the index panics; no error is returned.
\<close>

theorem TestRole_empty_reply_panics:
  "conn_Do nt c ''ROLE'' [] w = (Inr (RArray []), w1) \<Longrightarrow> TestRole nt c expectedRole w = Panic"
  by (simp add: TestRole_def)

theorem TestRole_empty_reply_panics_witness:
  "TestRole net_empty_role data_conn ''master'' data_world = Panic"
proof -
  have "conn_Do net_empty_role data_conn ''ROLE'' [] data_world =
      (Inr (RArray []),
       data_world\<lparr>clock := 2,
          trace := trace data_world @ [EvDo data_conn [''ROLE''] (Inr (RArray []))]\<rparr>)"
    by (simp add: conn_Do_def net_empty_role_def data_world_def Let_def)
  then show ?thesis by (rule TestRole_empty_reply_panics)
qed

section \<open>The Dial callback of the pool\<close>

text \<open>
  Claim C7. \<open>Dial\<close> returns a connection only when \<open>MasterAddress\<close> returned an address
  without error, then the dial of that address succeeded, then \<open>TestRole\<close> for
  \<open>master\<close> on the new connection returned nil, each step starting in the world the
  step before left; and whenever these three succeed it returns that connection. When
  the role check returns an error after a successful dial, \<open>Dial\<close> returns that error,
  wrapped, and no connection.
\<close>

theorem Dial_checks_role_before_handing_out:
  "(\<forall>c err sc1 w3. Dial nt conf sc w = Return ((Some c, err), sc1, w3) \<longrightarrow>
      err = None \<and>
      (\<exists>masterAddr w1 w2.
         MasterAddress nt (Master conf) sc w = Return ((masterAddr, None), sc1, w1) \<and>
         redis_Dial nt masterAddr (data_options conf) w1 = (Inr c, w2) \<and>
         TestRole nt c ''master'' w2 = Return (None, w3))) \<and>
   (\<forall>masterAddr sc1 w1 c w2 w3.
      MasterAddress nt (Master conf) sc w = Return ((masterAddr, None), sc1, w1) \<and>
      redis_Dial nt masterAddr (data_options conf) w1 = (Inr c, w2) \<and>
      TestRole nt c ''master'' w2 = Return (None, w3) \<longrightarrow>
      Dial nt conf sc w = Return ((Some c, None), sc1, w3)) \<and>
   (\<forall>masterAddr sc1 w1 c w2 e w3.
      MasterAddress nt (Master conf) sc w = Return ((masterAddr, None), sc1, w1) \<and>
      redis_Dial nt masterAddr (data_options conf) w1 = (Inr c, w2) \<and>
      TestRole nt c ''master'' w2 = Return (Some e, w3) \<longrightarrow>
      Dial nt conf sc w =
        Return ((None, Some (Err (''dial: failed role check: '' @ msg e))), sc1, w3))"
  by (auto simp: Dial_def data_options_def
      split: go.splits prod.splits option.splits sum.splits)

theorem Dial_checks_role_before_handing_out_witness:
  "Dial (net_role ''master'') config0 two_monitors world0 =
     Return ((Some (Conn 2 ''10.0.0.9:6379''), None), connected_client,
       connected_world\<lparr>clock := 4,
          trace := trace connected_world @
            [EvDial ''10.0.0.9:6379'' (Inr (Conn 2 ''10.0.0.9:6379'')),
             EvDo (Conn 2 ''10.0.0.9:6379'') [''ROLE'']
               (Inr (RArray [RBulk ''master'', RInt 0, RArray []]))],
          live := [Conn 2 ''10.0.0.9:6379'', Conn 0 ''10.0.0.1:26379'']\<rparr>) \<and>
   Dial (net_role ''slave'') config0 two_monitors world0 =
     Return ((None, Some (Err ''dial: failed role check: role check failed'')), connected_client,
       connected_world\<lparr>clock := 4,
          trace := trace connected_world @
            [EvDial ''10.0.0.9:6379'' (Inr (Conn 2 ''10.0.0.9:6379'')),
             EvDo (Conn 2 ''10.0.0.9:6379'') [''ROLE'']
               (Inr (RArray [RBulk ''slave'', RInt 0, RArray []]))],
          live := [Conn 2 ''10.0.0.9:6379'', Conn 0 ''10.0.0.1:26379'']\<rparr>)"
  using Dial_checks_role_before_handing_out [of "net_role ''slave''" config0 two_monitors world0]
  by (simp add: Dial_def MasterAddress_def do_def do_loop.simps doOnce_def TestRole_def
      redis_Dial_def conn_Do_def Let_def two_monitors_def NewClient_def net_role_def world0_def
      connected_client_def connected_world_def config0_def)

text \<open>The same holds of the callback of lines 45-64, whose timeouts are slice elements.\<close>

lemma Dial_c1_checks_role_before_handing_out:
  "(\<forall>c err sc1 w3. Dial_c1 nt conf sc w = Return ((Some c, err), sc1, w3) \<longrightarrow>
      err = None \<and>
      (\<exists>masterAddr w1 w2.
         MasterAddress_c1 nt (Name conf) sc w = Return ((masterAddr, None), sc1, w1) \<and>
         redis_Dial nt masterAddr (data_options_c1 conf) w1 = (Inr c, w2) \<and>
         TestRole nt c ''master'' w2 = Return (None, w3))) \<and>
   (\<forall>masterAddr sc1 w1 c w2 e w3.
      MasterAddress_c1 nt (Name conf) sc w = Return ((masterAddr, None), sc1, w1) \<and>
      \<not> length (RedisTimeouts_c1 conf) < 3 \<and>
      redis_Dial nt masterAddr (data_options_c1 conf) w1 = (Inr c, w2) \<and>
      TestRole nt c ''master'' w2 = Return (Some e, w3) \<longrightarrow>
      Dial_c1 nt conf sc w =
        Return ((None, Some (Err (''dial: failed role check: '' @ msg e))), sc1, w3))"
  by (auto simp: Dial_c1_def data_options_c1_def
      split: go.splits prod.splits option.splits sum.splits if_splits)

end
